theory Spec2Isabelle
  imports Complex_Main
begin

section \<open>Rate limiting engine of \<^verbatim>\<open>core/rate_limit.py\<close>\<close>

text \<open>
  The embedding follows \<^verbatim>\<open>src/core/rate_limit.py\<close>. Python floats are modelled as
  exact reals, Python ints as \<open>int\<close>. Every call of \<^verbatim>\<open>time.time()\<close> and of
  \<^verbatim>\<open>time.monotonic()\<close> is an input of the function that makes it: a clock reading is
  never assumed to equal an earlier one. Exceptions are values of the type \<open>error\<close>;
  a function that mutates the store returns the store as it is left, also when it raises.
  Locks and logging have no effect on the values computed by sequential calls and are
  not modelled.
\<close>

subsection \<open>Exceptions and results\<close>

datatype error =
    RateLimitExceeded string real int string
  | ZeroDivisionError
  | IndexError
  | TypeError
  | AttributeError
  | ValueError

text \<open>
  The fields of \<^verbatim>\<open>RateLimitResult\<close>. The fields \<^verbatim>\<open>key\<close>, \<^verbatim>\<open>limit\<close> and
  \<^verbatim>\<open>strategy\<close> carry a prefix, so that \<open>key\<close>, \<open>limit\<close> and \<open>strategy\<close> stay free
  for the parameters of the functions.
\<close>

record RateLimitResult =
  allowed :: bool
  res_key :: string
  remaining :: int
  res_limit :: int
  reset_at :: real
  retry_after :: real
  res_strategy :: string

subsection \<open>Python primitives\<close>

text \<open>\<^verbatim>\<open>int(x)\<close> on a float truncates towards zero.\<close>

definition py_int :: "real \<Rightarrow> int" where
  "py_int x = (if 0 \<le> x then \<lfloor>x\<rfloor> else \<lceil>x\<rceil>)"

text \<open>\<^verbatim>\<open>str(n)\<close> on an int, as the f-strings of the store keys format a slot.\<close>

definition digit_char :: "nat \<Rightarrow> char" where
  "digit_char d = ''0123456789'' ! d"

fun str_nat :: "nat \<Rightarrow> string" where
  "str_nat n = (if n < 10 then [digit_char n] else str_nat (n div 10) @ [digit_char (n mod 10)])"

declare str_nat.simps [simp del]

definition str_int :: "int \<Rightarrow> string" where
  "str_int i = (if i < 0 then CHR ''-'' # str_nat (nat (- i)) else str_nat (nat i))"

subsection \<open>Strategy-private state and store values\<close>

record BucketState =
  tokens :: real
  last_refill :: real

record LeakyState =
  queue_size :: int
  last_leak :: real

text \<open>
  The store holds values of any type (\<^verbatim>\<open>dict[str, Any]\<close>); \<open>val\<close> has the four kinds of
  value that this module writes: a counter, a deque of timestamps, and the two bucket states.
\<close>

datatype val =
    IntV int
  | LogV "real list"
  | BucketV BucketState
  | LeakyV LeakyState

text \<open>Python truthiness, as \<^verbatim>\<open>store.get(k) or default\<close> tests it.\<close>

fun truthy :: "val \<Rightarrow> bool" where
  "truthy (IntV c) = (c \<noteq> 0)"
| "truthy (LogV l) = (l \<noteq> [])"
| "truthy (BucketV b) = True"
| "truthy (LeakyV q) = True"

subsection \<open>InMemoryStore\<close>

text \<open>The dictionaries \<^verbatim>\<open>_data\<close> and \<^verbatim>\<open>_ttl\<close>.\<close>

record InMemoryStore =
  s_data :: "string \<rightharpoonup> val"
  s_ttl :: "string \<rightharpoonup> real"

definition InMemoryStore_init :: "InMemoryStore" where
  "InMemoryStore_init = \<lparr>s_data = Map.empty, s_ttl = Map.empty\<rparr>"

text \<open>\<open>t\<close> is the reading of \<^verbatim>\<open>time.monotonic()\<close> made by \<^verbatim>\<open>_is_expired\<close>.\<close>

definition is_expired :: "InMemoryStore \<Rightarrow> string \<Rightarrow> real \<Rightarrow> bool" where
  "is_expired st key t = (case s_ttl st key of None \<Rightarrow> False | Some expiry \<Rightarrow> t > expiry)"

definition evict :: "InMemoryStore \<Rightarrow> string \<Rightarrow> InMemoryStore" where
  "evict st key = st\<lparr>s_data := (s_data st)(key := None), s_ttl := (s_ttl st)(key := None)\<rparr>"

definition store_get :: "InMemoryStore \<Rightarrow> string \<Rightarrow> real \<Rightarrow> val option \<times> InMemoryStore" where
  "store_get st key t =
     (if is_expired st key t then (None, evict st key) else (s_data st key, st))"

text \<open>\<open>t\<close> is the reading of \<^verbatim>\<open>time.monotonic()\<close> made by \<^verbatim>\<open>set\<close> when a ttl is given.\<close>

definition store_set :: "InMemoryStore \<Rightarrow> string \<Rightarrow> val \<Rightarrow> real option \<Rightarrow> real \<Rightarrow> InMemoryStore" where
  "store_set st key v ttl t =
     (let st1 = st\<lparr>s_data := (s_data st)(key \<mapsto> v)\<rparr>
      in case ttl of None \<Rightarrow> st1 | Some d \<Rightarrow> st1\<lparr>s_ttl := (s_ttl st1)(key \<mapsto> t + d)\<rparr>)"

definition store_delete :: "InMemoryStore \<Rightarrow> string \<Rightarrow> InMemoryStore" where
  "store_delete st key = evict st key"

text \<open>
  \<^verbatim>\<open>incr\<close>: \<open>t1\<close> is the reading made by \<^verbatim>\<open>_is_expired\<close>, \<open>t2\<close> the one made by
  \<^verbatim>\<open>set\<close>. Adding 1 to a stored value that is not an int raises \<^verbatim>\<open>TypeError\<close>, after
  the eviction of an expired entry.
\<close>

definition incr :: "InMemoryStore \<Rightarrow> string \<Rightarrow> real option \<Rightarrow> real \<Rightarrow> real \<Rightarrow> (error + int) \<times> InMemoryStore" where
  "incr st key ttl t1 t2 =
     (let st1 = (if is_expired st key t1 then evict st key else st);
          cur = (case s_data st1 key of None \<Rightarrow> IntV 0 | Some v \<Rightarrow> v)
      in case cur of
           IntV c \<Rightarrow>
             (let count = c + 1
              in (Inr count, store_set st1 key (IntV count) (if count = 1 then ttl else None) t2))
         | _ \<Rightarrow> (Inl TypeError, st1))"

subsection \<open>Clock readings of one check\<close>

text \<open>
  The readings that one call of a strategy's \<^verbatim>\<open>check\<close> makes, in the fields of a record:
  \<^item> \<open>t_wall\<close>: \<^verbatim>\<open>time.time()\<close> (\<^verbatim>\<open>now\<close> of FixedWindow and SlidingWindowLog, the base of
    \<^verbatim>\<open>reset_at\<close> of the two buckets);
  \<^item> \<open>t_now\<close>: \<^verbatim>\<open>time.monotonic()\<close> at the start of the check of a bucket;
  \<^item> \<open>t_get\<close>: \<^verbatim>\<open>time.monotonic()\<close> in the expiry test of \<^verbatim>\<open>get\<close> or \<^verbatim>\<open>incr\<close>;
  \<^item> \<open>t_new\<close>: \<^verbatim>\<open>time.monotonic()\<close> called by the \<^verbatim>\<open>default_factory\<close> of
    \<^verbatim>\<open>last_refill\<close> or \<^verbatim>\<open>last_leak\<close> when a fresh state is built;
  \<^item> \<open>t_set\<close>: \<^verbatim>\<open>time.monotonic()\<close> in \<^verbatim>\<open>set\<close>.
\<close>

record readings =
  t_wall :: real
  t_now :: real
  t_get :: real
  t_new :: real
  t_set :: real

type_synonym check_outcome = "(error + RateLimitResult) \<times> InMemoryStore"

subsection \<open>FixedWindow\<close>

definition FixedWindow_check :: "InMemoryStore \<Rightarrow> string \<Rightarrow> int \<Rightarrow> real \<Rightarrow> readings \<Rightarrow> check_outcome" where
  "FixedWindow_check st key limit window rd =
     (let now = t_wall rd
      in if window = 0 then (Inl ZeroDivisionError, st)
         else
           (let slot = py_int (now / window);
                store_key = key @ '':fw:'' @ str_int slot
            in case incr st store_key (Some window) (t_get rd) (t_set rd) of
                 (Inl e, st') \<Rightarrow> (Inl e, st')
               | (Inr count, st') \<Rightarrow>
                   (let reset_at = real_of_int (slot + 1) * window;
                        allowed = (count \<le> limit)
                    in (Inr \<lparr>allowed = allowed,
                             res_key = key,
                             remaining = max 0 (limit - count),
                             res_limit = limit,
                             reset_at = reset_at,
                             retry_after = (if allowed then 0 else reset_at - now),
                             res_strategy = ''fixed_window''\<rparr>, st'))))"

subsection \<open>SlidingWindowLog\<close>

text \<open>
  \<^verbatim>\<open>self.store.get(store_key) or deque()\<close>: a falsy value is replaced by an empty deque;
  a truthy value that is not a deque raises \<^verbatim>\<open>TypeError\<close> at \<^verbatim>\<open>log[0]\<close>.
\<close>

definition load_log :: "val option \<Rightarrow> error + real list" where
  "load_log v =
     (case v of
        None \<Rightarrow> Inr []
      | Some (LogV l) \<Rightarrow> Inr l
      | Some w \<Rightarrow> (if truthy w then Inl TypeError else Inr []))"

definition SlidingWindowLog_check :: "InMemoryStore \<Rightarrow> string \<Rightarrow> int \<Rightarrow> real \<Rightarrow> readings \<Rightarrow> check_outcome" where
  "SlidingWindowLog_check st key limit window rd =
     (let now = t_wall rd;
          store_key = key @ '':swl'';
          cutoff = now - window
      in case store_get st store_key (t_get rd) of
           (v, st1) \<Rightarrow>
             (case load_log v of
                Inl e \<Rightarrow> (Inl e, st1)
              | Inr log0 \<Rightarrow>
                  (let log1 = dropWhile (\<lambda>x. x \<le> cutoff) log0;
                       allowed = (int (length log1) < limit);
                       log2 = (if allowed then log1 @ [now] else log1);
                       st2 = store_set st1 store_key (LogV log2) (Some window) (t_set rd)
                   in if \<not> allowed \<and> log2 = [] then (Inl IndexError, st2)
                      else
                        (Inr \<lparr>allowed = allowed,
                              res_key = key,
                              remaining = max 0 (limit - int (length log2)),
                              res_limit = limit,
                              reset_at = now + window,
                              retry_after = (if \<not> allowed then hd log2 + window - now else 0),
                              res_strategy = ''sliding_window_log''\<rparr>, st2))))"

subsection \<open>TokenBucket\<close>

text \<open>
  \<^verbatim>\<open>self.store.get(store_key) or _BucketState(tokens=float(limit))\<close>: the fresh state
  takes \<^verbatim>\<open>last_refill\<close> from its \<^verbatim>\<open>default_factory\<close>, a reading made after \<^verbatim>\<open>now\<close>.
\<close>

definition load_bucket :: "val option \<Rightarrow> int \<Rightarrow> real \<Rightarrow> error + BucketState" where
  "load_bucket v limit t =
     (case v of
        None \<Rightarrow> Inr \<lparr>tokens = real_of_int limit, last_refill = t\<rparr>
      | Some (BucketV b) \<Rightarrow> Inr b
      | Some w \<Rightarrow>
          (if truthy w then Inl AttributeError
           else Inr \<lparr>tokens = real_of_int limit, last_refill = t\<rparr>))"

definition TokenBucket_check :: "InMemoryStore \<Rightarrow> string \<Rightarrow> int \<Rightarrow> real \<Rightarrow> readings \<Rightarrow> check_outcome" where
  "TokenBucket_check st key limit window rd =
     (let now = t_now rd;
          store_key = key @ '':tb''
      in if window = 0 then (Inl ZeroDivisionError, st)
         else
           (let rate = real_of_int limit / window
            in case store_get st store_key (t_get rd) of
                 (v, st1) \<Rightarrow>
                   (case load_bucket v limit (t_new rd) of
                      Inl e \<Rightarrow> (Inl e, st1)
                    | Inr state \<Rightarrow>
                        (let elapsed = now - last_refill state;
                             tokens1 = min (real_of_int limit) (tokens state + elapsed * rate);
                             allowed = (tokens1 \<ge> 1);
                             tokens2 = (if allowed then tokens1 - 1 else tokens1);
                             st2 = store_set st1 store_key
                                     (BucketV \<lparr>tokens = tokens2, last_refill = now\<rparr>)
                                     (Some (window * 2)) (t_set rd)
                         in if rate = 0 then (Inl ZeroDivisionError, st2)
                            else
                              (let tokens_needed = (if \<not> allowed then 1 - tokens2 else 0);
                                   retry_after = (if \<not> allowed then tokens_needed / rate else 0)
                               in (Inr \<lparr>allowed = allowed,
                                        res_key = key,
                                        remaining = py_int tokens2,
                                        res_limit = limit,
                                        reset_at = t_wall rd + (real_of_int limit - tokens2) / rate,
                                        retry_after = retry_after,
                                        res_strategy = ''token_bucket''\<rparr>, st2))))))"

subsection \<open>LeakyBucket\<close>

definition load_leaky :: "val option \<Rightarrow> real \<Rightarrow> error + LeakyState" where
  "load_leaky v t =
     (case v of
        None \<Rightarrow> Inr \<lparr>queue_size = 0, last_leak = t\<rparr>
      | Some (LeakyV q) \<Rightarrow> Inr q
      | Some w \<Rightarrow>
          (if truthy w then Inl AttributeError
           else Inr \<lparr>queue_size = 0, last_leak = t\<rparr>))"

definition LeakyBucket_check :: "InMemoryStore \<Rightarrow> string \<Rightarrow> int \<Rightarrow> real \<Rightarrow> readings \<Rightarrow> check_outcome" where
  "LeakyBucket_check st key limit window rd =
     (let now = t_now rd;
          store_key = key @ '':lb''
      in if window = 0 then (Inl ZeroDivisionError, st)
         else
           (let rate = real_of_int limit / window
            in case store_get st store_key (t_get rd) of
                 (v, st1) \<Rightarrow>
                   (case load_leaky v (t_new rd) of
                      Inl e \<Rightarrow> (Inl e, st1)
                    | Inr state \<Rightarrow>
                        (let elapsed = now - last_leak state;
                             leaked = py_int (elapsed * rate);
                             queue1 = max 0 (queue_size state - leaked);
                             leak_at = (if leaked \<noteq> 0 then now else last_leak state);
                             allowed = (queue1 < limit);
                             queue2 = (if allowed then queue1 + 1 else queue1);
                             st2 = store_set st1 store_key
                                     (LeakyV \<lparr>queue_size = queue2, last_leak = leak_at\<rparr>)
                                     (Some (window * 2)) (t_set rd)
                         in if rate = 0 then (Inl ZeroDivisionError, st2)
                            else
                              (Inr \<lparr>allowed = allowed,
                                    res_key = key,
                                    remaining = max 0 (limit - queue2),
                                    res_limit = limit,
                                    reset_at = t_wall rd + real_of_int queue2 / rate,
                                    retry_after = (if \<not> allowed then 1 / rate else 0),
                                    res_strategy = ''leaky_bucket''\<rparr>, st2)))))"

subsection \<open>RateLimiter\<close>

datatype StrategyType = FIXED_WINDOW | SLIDING_WINDOW_LOG | TOKEN_BUCKET | LEAKY_BUCKET

text \<open>
  \<^verbatim>\<open>_STRATEGY_MAP[strategy](self._store)\<close> followed by \<^verbatim>\<open>.check\<close>: the strategy object
  holds nothing but the store, so the limiter keeps the tag and dispatches on it.
\<close>

definition Strategy_check :: "StrategyType \<Rightarrow> InMemoryStore \<Rightarrow> string \<Rightarrow> int \<Rightarrow> real \<Rightarrow> readings \<Rightarrow> check_outcome" where
  "Strategy_check s st key limit window rd =
     (case s of
        FIXED_WINDOW \<Rightarrow> FixedWindow_check st key limit window rd
      | SLIDING_WINDOW_LOG \<Rightarrow> SlidingWindowLog_check st key limit window rd
      | TOKEN_BUCKET \<Rightarrow> TokenBucket_check st key limit window rd
      | LEAKY_BUCKET \<Rightarrow> LeakyBucket_check st key limit window rd)"

text \<open>
  The limiter with the store it owns. Two limiters built on one store object are not
  modelled: every limiter here has a store of its own, as the default argument gives it.
\<close>

record RateLimiter =
  rl_limit :: int
  rl_window :: real
  raise_on_limit :: bool
  key_prefix :: string
  rl_store :: InMemoryStore
  rl_strategy :: StrategyType

text \<open>\<^verbatim>\<open>__init__\<close> stores its arguments; no statement of it raises.\<close>

definition RateLimiter_init :: "int \<Rightarrow> real \<Rightarrow> StrategyType \<Rightarrow> InMemoryStore option \<Rightarrow> string \<Rightarrow> bool \<Rightarrow> error + RateLimiter" where
  "RateLimiter_init limit window strategy store prefix raise_flag =
     Inr \<lparr>rl_limit = limit,
          rl_window = window,
          raise_on_limit = raise_flag,
          key_prefix = prefix,
          rl_store = (case store of None \<Rightarrow> InMemoryStore_init | Some st \<Rightarrow> st),
          rl_strategy = strategy\<rparr>"

text \<open>
  \<^verbatim>\<open>_build_key\<close>. The digest \<^verbatim>\<open>hashlib.md5(key.encode()).hexdigest()\<close> comes from the
  standard library; it is the parameter \<open>md5_hex\<close>.
\<close>

definition build_key :: "(string \<Rightarrow> string) \<Rightarrow> RateLimiter \<Rightarrow> string \<Rightarrow> string" where
  "build_key md5_hex rl key = key_prefix rl @ '':'' @ take 8 (md5_hex key) @ '':'' @ key"

definition RateLimiter_check :: "(string \<Rightarrow> string) \<Rightarrow> RateLimiter \<Rightarrow> string \<Rightarrow> readings \<Rightarrow> (error + RateLimitResult) \<times> RateLimiter" where
  "RateLimiter_check md5_hex rl key rd =
     (case Strategy_check (rl_strategy rl) (rl_store rl) (build_key md5_hex rl key)
             (rl_limit rl) (rl_window rl) rd of
        (r, st') \<Rightarrow> (r, rl\<lparr>rl_store := st'\<rparr>))"


text \<open>
  \<^verbatim>\<open>reset\<close> deletes the keys of the three unslotted strategies, then reads
  \<^verbatim>\<open>time.time()\<close> once for each of the three offsets: \<open>w0\<close>, \<open>w1\<close>, \<open>w2\<close>.
\<close>

definition RateLimiter_reset :: "(string \<Rightarrow> string) \<Rightarrow> RateLimiter \<Rightarrow> string \<Rightarrow> real \<Rightarrow> real \<Rightarrow> real \<Rightarrow> (error + unit) \<times> RateLimiter" where
  "RateLimiter_reset md5_hex rl key w0 w1 w2 =
     (let full_key = build_key md5_hex rl key;
          st1 = fold (\<lambda>suffix st. store_delete st (full_key @ suffix))
                  ['':swl'', '':tb'', '':lb''] (rl_store rl)
      in if rl_window rl = 0 then (Inl ZeroDivisionError, rl\<lparr>rl_store := st1\<rparr>)
         else
           (let st2 = fold (\<lambda>(w, offset) st.
                              store_delete st
                                (full_key @ '':fw:'' @ str_int (py_int (w / rl_window rl) - offset)))
                        [(w0, 0), (w1, 1), (w2, 2)] st1
            in (Inr (), rl\<lparr>rl_store := st2\<rparr>)))"

subsection \<open>TieredRateLimiter\<close>


text \<open>
  Each tier makes its own clock readings: \<open>rds i\<close> are the readings of the tier at
  position \<open>i\<close>. A raise leaves the tiers already evaluated as their checks left them.
\<close>

fun TieredRateLimiter_check :: "(string \<Rightarrow> string) \<Rightarrow> RateLimiter list \<Rightarrow> string \<Rightarrow> (nat \<Rightarrow> readings) \<Rightarrow> (error + RateLimitResult list) \<times> RateLimiter list" where
  "TieredRateLimiter_check md5_hex [] key rds = (Inr [], [])"
| "TieredRateLimiter_check md5_hex (rl # rls) key rds =
     (case RateLimiter_check md5_hex rl key (rds 0) of
        (Inl e, rl') \<Rightarrow> (Inl e, rl' # rls)
      | (Inr result, rl') \<Rightarrow>
          (case TieredRateLimiter_check md5_hex rls key (\<lambda>i. rds (Suc i)) of
             (Inl e, rls') \<Rightarrow> (Inl e, rl' # rls')
           | (Inr results, rls') \<Rightarrow> (Inr (result # results), rl' # rls')))"


subsection \<open>Stores written by one strategy\<close>



subsection \<open>Sequences of calls\<close>








subsection \<open>Sequences of checks on one key\<close>











section \<open>Properties\<close>

lemmas store_defs =
  incr_def is_expired_def evict_def store_set_def store_get_def store_delete_def

lemmas eval_defs =
  InMemoryStore_init_def py_int_def str_int_def str_nat.simps digit_char_def Let_def

subsection \<open>InMemoryStore.incr and lazy expiry\<close>

text \<open>
  Claim C9. \<^verbatim>\<open>incr(key, ttl)\<close> on a key that is absent, or whose expiry has passed at the
  reading of the call, returns 1, stores 1 and sets the expiry to the reading of \<^verbatim>\<open>set\<close>
  plus the ttl. On a live counter holding \<open>c\<close> it returns and stores \<open>c + 1\<close>; when the
  counter was produced by earlier increments (\<open>1 \<le> c\<close>) the whole expiry table is left as it
  was, so the key is as far from expiring as before. A \<^verbatim>\<open>get\<close> or \<^verbatim>\<open>incr\<close> on an expired
  key evicts it (value and expiry) and gives what it gives on the store without the key.
\<close>

theorem incr_sets_ttl_only_on_creation:
  "(s_data st key = None \<or> is_expired st key t1 \<longrightarrow>
      (case incr st key (Some d) t1 t2 of
         (r, st') \<Rightarrow>
           r = Inr 1 \<and> s_data st' = (s_data st)(key \<mapsto> IntV 1) \<and>
           s_ttl st' = (s_ttl st)(key \<mapsto> t2 + d))) \<and>
   (s_data st key = Some (IntV c) \<and> \<not> is_expired st key t1 \<longrightarrow>
      (case incr st key ttl t1 t2 of
         (r, st') \<Rightarrow>
           r = Inr (c + 1) \<and> s_data st' = (s_data st)(key \<mapsto> IntV (c + 1)) \<and>
           (1 \<le> c \<longrightarrow> s_ttl st' = s_ttl st \<and> \<not> is_expired st' key t1))) \<and>
   (is_expired st key t1 \<longrightarrow>
      store_get st key t1 = (None, evict st key) \<and>
      s_data (evict st key) key = None \<and> s_ttl (evict st key) key = None \<and>
      store_get st key t1 = store_get (evict st key) key t1 \<and>
      incr st key ttl t1 t2 = incr (evict st key) key ttl t1 t2)"
  by (auto simp: store_defs Let_def split: option.splits val.splits)

theorem incr_sets_ttl_only_on_creation_witness:
  "fst (incr \<lparr>s_data = [''k'' \<mapsto> IntV 3], s_ttl = [''k'' \<mapsto> 10]\<rparr> ''k'' (Some 60) 5 6) = Inr 4 \<and>
   s_ttl (snd (incr \<lparr>s_data = [''k'' \<mapsto> IntV 3], s_ttl = [''k'' \<mapsto> 10]\<rparr> ''k'' (Some 60) 5 6)) ''k''
     = Some 10 \<and>
   fst (incr \<lparr>s_data = [''k'' \<mapsto> IntV 3], s_ttl = [''k'' \<mapsto> 10]\<rparr> ''k'' (Some 60) 11 12) = Inr 1 \<and>
   s_ttl (snd (incr \<lparr>s_data = [''k'' \<mapsto> IntV 3], s_ttl = [''k'' \<mapsto> 10]\<rparr> ''k'' (Some 60) 11 12)) ''k''
     = Some 72 \<and>
   fst (store_get \<lparr>s_data = [''k'' \<mapsto> IntV 3], s_ttl = [''k'' \<mapsto> 10]\<rparr> ''k'' 11) = None"
proof -
  let ?st = "\<lparr>s_data = [''k'' \<mapsto> IntV 3], s_ttl = [''k'' \<mapsto> 10]\<rparr>"
  note live = incr_sets_ttl_only_on_creation
      [where st = ?st and key = "''k''" and ?t1.0 = 5 and ?t2.0 = 6 and c = 3
         and ttl = "Some 60", THEN conjunct2, THEN conjunct1]
  note dead = incr_sets_ttl_only_on_creation
      [where st = ?st and key = "''k''" and ?t1.0 = 11 and d = 60 and ?t2.0 = 12,
         THEN conjunct1]
  note gone = incr_sets_ttl_only_on_creation
      [where st = ?st and key = "''k''" and ?t1.0 = 11, THEN conjunct2, THEN conjunct2]
  have "fst (store_get ?st ''k'' 11) = None"
    using gone by (simp add: is_expired_def)
  with live dead show ?thesis
    by (simp add: is_expired_def case_prod_unfold)
qed

subsection \<open>The FixedWindow scenario\<close>

text \<open>
  Claim C7. A fresh FixedWindow limiter with limit 2 and window 60, one key. Two checks at
  wall time 0 are allowed with remaining 1 and then 0; a third at wall time 10 is denied
  with \<open>retry_after = reset_at - now = 50\<close>; a check at wall time 61 falls in the next slot
  and is allowed with remaining 1. The monotonic readings are arbitrary but for the second
  and third check, which read the clock before the counter of slot 0 expires (60 after the
  reading at which the first check stored it).
\<close>

theorem fixed_window_scenario:
  assumes "t_wall rd1 = 0" and "t_wall rd2 = 0" and "t_wall rd3 = 10" and "t_wall rd4 = 61"
    and "t_get rd2 \<le> t_set rd1 + 60" and "t_get rd3 \<le> t_set rd1 + 60"
  shows
    "case RateLimiter_init 2 60 FIXED_WINDOW None prefix flag of
       Inl e \<Rightarrow> False
     | Inr rl0 \<Rightarrow>
        (case RateLimiter_check md5_hex rl0 k rd1 of (r1, rl1) \<Rightarrow>
         case RateLimiter_check md5_hex rl1 k rd2 of (r2, rl2) \<Rightarrow>
         case RateLimiter_check md5_hex rl2 k rd3 of (r3, rl3) \<Rightarrow>
         case RateLimiter_check md5_hex rl3 k rd4 of (r4, rl4) \<Rightarrow>
           r1 = Inr \<lparr>allowed = True, res_key = build_key md5_hex rl0 k, remaining = 1,
                     res_limit = 2, reset_at = 60, retry_after = 0,
                     res_strategy = ''fixed_window''\<rparr> \<and>
           r2 = Inr \<lparr>allowed = True, res_key = build_key md5_hex rl0 k, remaining = 0,
                     res_limit = 2, reset_at = 60, retry_after = 0,
                     res_strategy = ''fixed_window''\<rparr> \<and>
           r3 = Inr \<lparr>allowed = False, res_key = build_key md5_hex rl0 k, remaining = 0,
                     res_limit = 2, reset_at = 60, retry_after = 50,
                     res_strategy = ''fixed_window''\<rparr> \<and>
           r4 = Inr \<lparr>allowed = True, res_key = build_key md5_hex rl0 k, remaining = 1,
                     res_limit = 2, reset_at = 120, retry_after = 0,
                     res_strategy = ''fixed_window''\<rparr>)"
  using assms
  by (simp add: RateLimiter_init_def RateLimiter_check_def Strategy_check_def
      FixedWindow_check_def build_key_def eval_defs store_defs)

theorem fixed_window_scenario_witness:
  "case RateLimiter_init 2 60 FIXED_WINDOW None ''rl'' False of
     Inl e \<Rightarrow> False
   | Inr rl0 \<Rightarrow>
      (case RateLimiter_check (\<lambda>s. s) rl0 ''user:42''
              \<lparr>t_wall = 0, t_now = 100, t_get = 100, t_new = 100, t_set = 100\<rparr> of (r1, rl1) \<Rightarrow>
       case RateLimiter_check (\<lambda>s. s) rl1 ''user:42''
              \<lparr>t_wall = 0, t_now = 100, t_get = 100, t_new = 100, t_set = 100\<rparr> of (r2, rl2) \<Rightarrow>
       case RateLimiter_check (\<lambda>s. s) rl2 ''user:42''
              \<lparr>t_wall = 10, t_now = 110, t_get = 110, t_new = 110, t_set = 110\<rparr> of (r3, rl3) \<Rightarrow>
       case RateLimiter_check (\<lambda>s. s) rl3 ''user:42''
              \<lparr>t_wall = 61, t_now = 161, t_get = 161, t_new = 161, t_set = 161\<rparr> of (r4, rl4) \<Rightarrow>
         r1 = Inr \<lparr>allowed = True, res_key = build_key (\<lambda>s. s) rl0 ''user:42'', remaining = 1,
                   res_limit = 2, reset_at = 60, retry_after = 0,
                   res_strategy = ''fixed_window''\<rparr> \<and>
         r2 = Inr \<lparr>allowed = True, res_key = build_key (\<lambda>s. s) rl0 ''user:42'', remaining = 0,
                   res_limit = 2, reset_at = 60, retry_after = 0,
                   res_strategy = ''fixed_window''\<rparr> \<and>
         r3 = Inr \<lparr>allowed = False, res_key = build_key (\<lambda>s. s) rl0 ''user:42'', remaining = 0,
                   res_limit = 2, reset_at = 60, retry_after = 50,
                   res_strategy = ''fixed_window''\<rparr> \<and>
         r4 = Inr \<lparr>allowed = True, res_key = build_key (\<lambda>s. s) rl0 ''user:42'', remaining = 1,
                   res_limit = 2, reset_at = 120, retry_after = 0,
                   res_strategy = ''fixed_window''\<rparr>)"
  using fixed_window_scenario
    [where ?rd1.0 = "\<lparr>t_wall = 0, t_now = 100, t_get = 100, t_new = 100, t_set = 100\<rparr>"
       and ?rd2.0 = "\<lparr>t_wall = 0, t_now = 100, t_get = 100, t_new = 100, t_set = 100\<rparr>"
       and ?rd3.0 = "\<lparr>t_wall = 10, t_now = 110, t_get = 110, t_new = 110, t_set = 110\<rparr>"
       and ?rd4.0 = "\<lparr>t_wall = 61, t_now = 161, t_get = 161, t_new = 161, t_set = 161\<rparr>"
       and prefix = "''rl''" and flag = False and md5_hex = "\<lambda>s. s" and k = "''user:42''"]
  by simp

subsection \<open>What check can raise\<close>
















subsection \<open>Construction\<close>

text \<open>
  Claim C2 as stated fails: the constructor has no validation. With limit 0 and window 0 it
  returns a limiter, and the first FixedWindow check of that limiter divides by the window.
\<close>

theorem init_accepts_invalid_configuration:
  "RateLimiter_init 0 0 FIXED_WINDOW None ''rl'' False =
     Inr \<lparr>rl_limit = 0, rl_window = 0, raise_on_limit = False, key_prefix = ''rl'',
          rl_store = InMemoryStore_init, rl_strategy = FIXED_WINDOW\<rparr> \<and>
   fst (RateLimiter_check id
          \<lparr>rl_limit = 0, rl_window = 0, raise_on_limit = False, key_prefix = ''rl'',
           rl_store = InMemoryStore_init, rl_strategy = FIXED_WINDOW\<rparr>
          ''user'' \<lparr>t_wall = 5, t_now = 5, t_get = 5, t_new = 5, t_set = 5\<rparr>)
     = Inl ZeroDivisionError"
  by (simp add: RateLimiter_init_def RateLimiter_check_def Strategy_check_def FixedWindow_check_def)

text \<open>
  Claim C2, amended. Construction never fails: for every limit and window, also
  \<open>limit \<le> 0\<close> or \<open>window \<le> 0\<close>, and every strategy, the constructor returns a limiter
  holding that limit and window unchanged; every check passes them to the strategy, where
  \<open>window = 0\<close> raises \<^verbatim>\<open>ZeroDivisionError\<close> for FixedWindow, TokenBucket and LeakyBucket.
\<close>

theorem init_never_rejects:
  "\<exists>rl. RateLimiter_init limit window strategy store prefix flag = Inr rl \<and>
     rl_limit rl = limit \<and> rl_window rl = window \<and> rl_strategy rl = strategy \<and>
     RateLimiter_check md5_hex rl k rd =
       (case Strategy_check strategy (rl_store rl) (build_key md5_hex rl k) limit window rd of
          (r, st') \<Rightarrow> (r, rl\<lparr>rl_store := st'\<rparr>)) \<and>
     (window = 0 \<and> strategy \<noteq> SLIDING_WINDOW_LOG \<longrightarrow>
        RateLimiter_check md5_hex rl k rd = (Inl ZeroDivisionError, rl))"
proof -
  define rl where "rl = \<lparr>rl_limit = limit, rl_window = window, raise_on_limit = flag,
     key_prefix = prefix,
     rl_store = (case store of None \<Rightarrow> InMemoryStore_init | Some st \<Rightarrow> st),
     rl_strategy = strategy\<rparr>"
  have init: "RateLimiter_init limit window strategy store prefix flag = Inr rl"
    by (simp add: RateLimiter_init_def rl_def)
  have fields: "rl_limit rl = limit" "rl_window rl = window" "rl_strategy rl = strategy"
    by (simp_all add: rl_def)
  have chk: "RateLimiter_check md5_hex rl k rd =
       (case Strategy_check strategy (rl_store rl) (build_key md5_hex rl k) limit window rd of
          (r, st') \<Rightarrow> (r, rl\<lparr>rl_store := st'\<rparr>))"
    by (simp add: RateLimiter_check_def fields)
  have zero: "RateLimiter_check md5_hex rl k rd = (Inl ZeroDivisionError, rl)"
    if "window = 0 \<and> strategy \<noteq> SLIDING_WINDOW_LOG"
    using that unfolding chk
    by (cases strategy)
      (simp_all add: Strategy_check_def FixedWindow_check_def TokenBucket_check_def
        LeakyBucket_check_def)
  from init fields chk zero show ?thesis by blast
qed

theorem init_never_rejects_witness:
  "\<exists>rl. RateLimiter_init (- 1) 0 TOKEN_BUCKET None ''rl'' True = Inr rl \<and>
     rl_limit rl = - 1 \<and> rl_window rl = 0 \<and>
     RateLimiter_check id rl ''user'' \<lparr>t_wall = 5, t_now = 5, t_get = 5, t_new = 5, t_set = 5\<rparr>
       = (Inl ZeroDivisionError, rl)"
  using init_never_rejects [where limit = "- 1" and window = 0 and strategy = TOKEN_BUCKET
      and store = None and prefix = "''rl''" and flag = True and md5_hex = id and k = "''user''"
      and rd = "\<lparr>t_wall = 5, t_now = 5, t_get = 5, t_new = 5, t_set = 5\<rparr>"]
  by auto

subsection \<open>check and enforce\<close>



subsection \<open>The flag raise_on_limit\<close>



subsection \<open>SlidingWindowLog.check\<close>


lemma SlidingWindowLog_check_unfold:
  assumes "store_get st (key @ '':swl'') (t_get rd) = (v, st1)" and "load_log v = Inr log0"
    and "log1 = dropWhile (\<lambda>x. x \<le> t_wall rd - window) log0"
    and "int (length log1) < limit \<or> log1 \<noteq> []"
  shows "SlidingWindowLog_check st key limit window rd =
     (Inr \<lparr>allowed = (int (length log1) < limit),
           res_key = key,
           remaining = max 0 (limit - int (length (if int (length log1) < limit then log1 @ [t_wall rd] else log1))),
           res_limit = limit,
           reset_at = t_wall rd + window,
           retry_after = (if int (length log1) < limit then 0 else hd log1 + window - t_wall rd),
           res_strategy = ''sliding_window_log''\<rparr>,
      store_set st1 (key @ '':swl'')
        (LogV (if int (length log1) < limit then log1 @ [t_wall rd] else log1))
        (Some window) (t_set rd))"
  using assms
  by (auto simp add: SlidingWindowLog_check_def Let_def simp del: dropWhile_eq_Nil_conv)




subsection \<open>Checks on a fresh key, and reset\<close>

text \<open>
  The two bucket checks as functions of the loaded state, and all four checks on a key
  that the store does not hold. A fresh bucket state takes its timestamp from \<open>t_new\<close>,
  read after \<open>t_now\<close>.
\<close>

lemma TokenBucket_check_unfold:
  assumes "window \<noteq> 0" and "limit \<noteq> 0"
    and "store_get st (key @ '':tb'') (t_get rd) = (v, st1)"
    and "load_bucket v limit (t_new rd) = Inr b"
    and "tokens1 = min (real_of_int limit)
                     (tokens b + (t_now rd - last_refill b) * (real_of_int limit / window))"
    and "tokens2 = (if 1 \<le> tokens1 then tokens1 - 1 else tokens1)"
  shows "TokenBucket_check st key limit window rd =
     (Inr \<lparr>allowed = (1 \<le> tokens1),
           res_key = key,
           remaining = py_int tokens2,
           res_limit = limit,
           reset_at = t_wall rd + (real_of_int limit - tokens2) / (real_of_int limit / window),
           retry_after = (if 1 \<le> tokens1 then 0 else (1 - tokens2) / (real_of_int limit / window)),
           res_strategy = ''token_bucket''\<rparr>,
      store_set st1 (key @ '':tb'') (BucketV \<lparr>tokens = tokens2, last_refill = t_now rd\<rparr>)
        (Some (window * 2)) (t_set rd))"
  using assms by (simp add: TokenBucket_check_def Let_def)


lemma LeakyBucket_check_unfold:
  assumes "window \<noteq> 0" and "limit \<noteq> 0"
    and "store_get st (key @ '':lb'') (t_get rd) = (v, st1)"
    and "load_leaky v (t_new rd) = Inr q"
    and "leaked = py_int ((t_now rd - last_leak q) * (real_of_int limit / window))"
    and "queue1 = max 0 (queue_size q - leaked)"
    and "queue2 = (if queue1 < limit then queue1 + 1 else queue1)"
  shows "LeakyBucket_check st key limit window rd =
     (Inr \<lparr>allowed = (queue1 < limit),
           res_key = key,
           remaining = max 0 (limit - queue2),
           res_limit = limit,
           reset_at = t_wall rd + real_of_int queue2 / (real_of_int limit / window),
           retry_after = (if queue1 < limit then 0 else 1 / (real_of_int limit / window)),
           res_strategy = ''leaky_bucket''\<rparr>,
      store_set st1 (key @ '':lb'')
        (LeakyV \<lparr>queue_size = queue2, last_leak = (if leaked \<noteq> 0 then t_now rd else last_leak q)\<rparr>)
        (Some (window * 2)) (t_set rd))"
  using assms by (simp add: LeakyBucket_check_def Let_def)


lemma reset_clears:
  assumes "rl_window rl \<noteq> 0"
  shows "\<exists>st'. RateLimiter_reset md5_hex rl k w0 w1 w2 = (Inr (), rl\<lparr>rl_store := st'\<rparr>) \<and>
           (\<forall>sfx \<in> {'':swl'', '':tb'', '':lb'', '':fw:'' @ str_int (py_int (w0 / rl_window rl))}.
              s_data st' (build_key md5_hex rl k @ sfx) = None \<and>
              s_ttl st' (build_key md5_hex rl k @ sfx) = None)"
proof -
  define st' where "st' = rl_store (snd (RateLimiter_reset md5_hex rl k w0 w1 w2))"
  have "RateLimiter_reset md5_hex rl k w0 w1 w2 = (Inr (), rl\<lparr>rl_store := st'\<rparr>)"
    unfolding st'_def using assms by (simp add: RateLimiter_reset_def Let_def)
  moreover have "\<forall>sfx \<in> {'':swl'', '':tb'', '':lb'', '':fw:'' @ str_int (py_int (w0 / rl_window rl))}.
              s_data st' (build_key md5_hex rl k @ sfx) = None \<and>
              s_ttl st' (build_key md5_hex rl k @ sfx) = None"
    unfolding st'_def using assms
    by (simp add: RateLimiter_reset_def store_delete_def evict_def Let_def)
  ultimately show ?thesis by blast
qed

lemma store_get_absent:
  "s_data st k = None \<Longrightarrow> s_ttl st k = None \<Longrightarrow> store_get st k t = (None, st)"
  by (simp add: store_get_def is_expired_def)

lemma TokenBucket_check_fresh:
  assumes "window \<noteq> 0" and "limit \<noteq> 0"
    and "s_data st (key @ '':tb'') = None" and "s_ttl st (key @ '':tb'') = None"
    and "tokens1 = min (real_of_int limit)
                     (real_of_int limit + (t_now rd - t_new rd) * (real_of_int limit / window))"
    and "tokens2 = (if 1 \<le> tokens1 then tokens1 - 1 else tokens1)"
  shows "TokenBucket_check st key limit window rd =
     (Inr \<lparr>allowed = (1 \<le> tokens1),
           res_key = key,
           remaining = py_int tokens2,
           res_limit = limit,
           reset_at = t_wall rd + (real_of_int limit - tokens2) / (real_of_int limit / window),
           retry_after = (if 1 \<le> tokens1 then 0 else (1 - tokens2) / (real_of_int limit / window)),
           res_strategy = ''token_bucket''\<rparr>,
      store_set st (key @ '':tb'') (BucketV \<lparr>tokens = tokens2, last_refill = t_now rd\<rparr>)
        (Some (window * 2)) (t_set rd))"
proof -
  have g: "store_get st (key @ '':tb'') (t_get rd) = (None, st)"
    using assms(3,4) by (rule store_get_absent)
  have l: "load_bucket None limit (t_new rd) = Inr \<lparr>tokens = real_of_int limit, last_refill = t_new rd\<rparr>"
    by (simp add: load_bucket_def)
  show ?thesis
    using TokenBucket_check_unfold [OF assms(1,2) g l, of tokens1 tokens2] assms(5,6) by simp
qed

lemma LeakyBucket_check_fresh:
  assumes "window \<noteq> 0" and "limit \<noteq> 0"
    and "s_data st (key @ '':lb'') = None" and "s_ttl st (key @ '':lb'') = None"
    and "leaked = py_int ((t_now rd - t_new rd) * (real_of_int limit / window))"
    and "queue1 = max 0 (0 - leaked)"
    and "queue2 = (if queue1 < limit then queue1 + 1 else queue1)"
  shows "LeakyBucket_check st key limit window rd =
     (Inr \<lparr>allowed = (queue1 < limit),
           res_key = key,
           remaining = max 0 (limit - queue2),
           res_limit = limit,
           reset_at = t_wall rd + real_of_int queue2 / (real_of_int limit / window),
           retry_after = (if queue1 < limit then 0 else 1 / (real_of_int limit / window)),
           res_strategy = ''leaky_bucket''\<rparr>,
      store_set st (key @ '':lb'')
        (LeakyV \<lparr>queue_size = queue2, last_leak = (if leaked \<noteq> 0 then t_now rd else t_new rd)\<rparr>)
        (Some (window * 2)) (t_set rd))"
proof -
  have g: "store_get st (key @ '':lb'') (t_get rd) = (None, st)"
    using assms(3,4) by (rule store_get_absent)
  have l: "load_leaky None (t_new rd) = Inr \<lparr>queue_size = 0, last_leak = t_new rd\<rparr>"
    by (simp add: load_leaky_def)
  show ?thesis
    using LeakyBucket_check_unfold [OF assms(1,2) g l, of leaked queue1 queue2] assms(5,6,7) by simp
qed

lemma FixedWindow_check_fresh:
  assumes "window \<noteq> 0"
    and "s_data st (key @ '':fw:'' @ str_int (py_int (t_wall rd / window))) = None"
    and "s_ttl st (key @ '':fw:'' @ str_int (py_int (t_wall rd / window))) = None"
  shows "FixedWindow_check st key limit window rd =
     (Inr \<lparr>allowed = (1 \<le> limit),
           res_key = key,
           remaining = max 0 (limit - 1),
           res_limit = limit,
           reset_at = real_of_int (py_int (t_wall rd / window) + 1) * window,
           retry_after = (if 1 \<le> limit then 0
                          else real_of_int (py_int (t_wall rd / window) + 1) * window - t_wall rd),
           res_strategy = ''fixed_window''\<rparr>,
      store_set st (key @ '':fw:'' @ str_int (py_int (t_wall rd / window))) (IntV 1)
        (Some window) (t_set rd))"
proof -
  have "incr st (key @ '':fw:'' @ str_int (py_int (t_wall rd / window))) (Some window)
          (t_get rd) (t_set rd) =
        (Inr 1, store_set st (key @ '':fw:'' @ str_int (py_int (t_wall rd / window))) (IntV 1)
                  (Some window) (t_set rd))"
    using assms(2,3) by (simp add: incr_def is_expired_def Let_def)
  then show ?thesis
    using assms(1) by (simp add: FixedWindow_check_def Let_def)
qed

lemma SlidingWindowLog_check_fresh:
  assumes "0 < limit"
    and "s_data st (key @ '':swl'') = None" and "s_ttl st (key @ '':swl'') = None"
  shows "SlidingWindowLog_check st key limit window rd =
     (Inr \<lparr>allowed = True,
           res_key = key,
           remaining = max 0 (limit - 1),
           res_limit = limit,
           reset_at = t_wall rd + window,
           retry_after = 0,
           res_strategy = ''sliding_window_log''\<rparr>,
      store_set st (key @ '':swl'') (LogV [t_wall rd]) (Some window) (t_set rd))"
proof -
  have g: "store_get st (key @ '':swl'') (t_get rd) = (None, st)"
    using assms(2,3) by (rule store_get_absent)
  have l: "load_log None = Inr []"
    by (simp add: load_log_def)
  have d: "[] = dropWhile (\<lambda>x. x \<le> t_wall rd - window) []"
    by simp
  have "int (length ([]::real list)) < limit \<or> ([]::real list) \<noteq> []"
    using assms(1) by simp
  from SlidingWindowLog_check_unfold [OF g l d this] assms(1)
  show ?thesis by simp
qed

text \<open>
  After \<^verbatim>\<open>reset\<close>, whatever the store held before, a check of the same key is allowed with
  \<open>remaining = limit - 1\<close> for FixedWindow when the check falls in the slot of the reset's
  first reading, for SlidingWindowLog always, for LeakyBucket when the fresh timestamp is
  less than one drain interval after \<open>now\<close>, and for TokenBucket when the fresh timestamp
  equals \<open>now\<close>.
\<close>

lemma reset_then_check:
  assumes lim: "0 < rl_limit rl" and win: "0 < rl_window rl"
    and reset: "RateLimiter_reset md5_hex rl k w0 w1 w2 = (r, rl1)"
    and same:
      "case rl_strategy rl of
         FIXED_WINDOW \<Rightarrow> py_int (t_wall rd / rl_window rl) = py_int (w0 / rl_window rl)
       | SLIDING_WINDOW_LOG \<Rightarrow> True
       | TOKEN_BUCKET \<Rightarrow> t_new rd = t_now rd
       | LEAKY_BUCKET \<Rightarrow>
           py_int ((t_now rd - t_new rd) * (real_of_int (rl_limit rl) / rl_window rl)) = 0"
  shows "\<exists>res rl2. RateLimiter_check md5_hex rl1 k rd = (Inr res, rl2) \<and>
           allowed res \<and> remaining res = rl_limit rl - 1"
proof -
  let ?key = "build_key md5_hex rl k"
  from win have "rl_window rl \<noteq> 0" by simp
  from reset_clears [OF this, of md5_hex k w0 w1 w2] reset
  obtain st' where rl1: "rl1 = rl\<lparr>rl_store := st'\<rparr>"
    and clear: "\<forall>sfx \<in> {'':swl'', '':tb'', '':lb'', '':fw:'' @ str_int (py_int (w0 / rl_window rl))}.
              s_data st' (?key @ sfx) = None \<and> s_ttl st' (?key @ sfx) = None"
    by auto
  have key: "build_key md5_hex rl1 k = ?key"
    by (simp add: rl1 build_key_def)
  have w: "rl_window rl \<noteq> 0" and l: "rl_limit rl \<noteq> 0"
    using lim win by simp_all
  show ?thesis
  proof (cases "rl_strategy rl")
    case FIXED_WINDOW
    with same have slot: "py_int (t_wall rd / rl_window rl) = py_int (w0 / rl_window rl)"
      by simp
    have "s_data st' (?key @ '':fw:'' @ str_int (py_int (t_wall rd / rl_window rl))) = None"
      and "s_ttl st' (?key @ '':fw:'' @ str_int (py_int (t_wall rd / rl_window rl))) = None"
      using clear unfolding slot by simp_all
    from FixedWindow_check_fresh [OF w this, of "rl_limit rl"] FIXED_WINDOW lim
    show ?thesis
      by (simp add: RateLimiter_check_def Strategy_check_def rl1 key [unfolded rl1])
  next
    case SLIDING_WINDOW_LOG
    have "s_data st' (?key @ '':swl'') = None" and "s_ttl st' (?key @ '':swl'') = None"
      using clear by simp_all
    from SlidingWindowLog_check_fresh [OF lim this, of "rl_window rl" rd] SLIDING_WINDOW_LOG lim
    show ?thesis
      by (simp add: RateLimiter_check_def Strategy_check_def rl1 key [unfolded rl1])
  next
    case TOKEN_BUCKET
    with same have tick: "t_new rd = t_now rd" by simp
    have d: "s_data st' (?key @ '':tb'') = None" and t: "s_ttl st' (?key @ '':tb'') = None"
      using clear by simp_all
    have t1: "real_of_int (rl_limit rl) = min (real_of_int (rl_limit rl))
        (real_of_int (rl_limit rl) + (t_now rd - t_new rd) * (real_of_int (rl_limit rl) / rl_window rl))"
      using tick by simp
    have one: "1 \<le> real_of_int (rl_limit rl)"
      using lim by simp
    then have t2: "real_of_int (rl_limit rl - 1) =
        (if 1 \<le> real_of_int (rl_limit rl) then real_of_int (rl_limit rl) - 1
         else real_of_int (rl_limit rl))"
      by simp
    have "py_int (real_of_int (rl_limit rl - 1)) = rl_limit rl - 1"
      using lim unfolding py_int_def by simp
    with TokenBucket_check_fresh [OF w l d t t1 t2] TOKEN_BUCKET one
    show ?thesis
      by (simp add: RateLimiter_check_def Strategy_check_def rl1 key [unfolded rl1])
  next
    case LEAKY_BUCKET
    with same have leak:
      "0 = py_int ((t_now rd - t_new rd) * (real_of_int (rl_limit rl) / rl_window rl))"
      by simp
    have d: "s_data st' (?key @ '':lb'') = None" and t: "s_ttl st' (?key @ '':lb'') = None"
      using clear by simp_all
    have q1: "(0::int) = max 0 (0 - 0)" by simp
    have q2: "(1::int) = (if 0 < rl_limit rl then 0 + 1 else 0)"
      using lim by simp
    from LeakyBucket_check_fresh [OF w l d t leak q1 q2] LEAKY_BUCKET lim
    show ?thesis
      by (simp add: RateLimiter_check_def Strategy_check_def rl1 key [unfolded rl1])
  qed
qed

text \<open>
  Claim C8 states that \<^verbatim>\<open>reset(key)\<close> followed immediately by \<^verbatim>\<open>check(key)\<close> returns
  \<open>allowed = True\<close> and \<open>remaining = limit - 1\<close> for every strategy. TokenBucket breaks it:
  with limit 3 and window 5, any prior store and any readings of \<^verbatim>\<open>reset\<close>, a check whose
  fresh state reads the monotonic clock one microsecond after \<open>now\<close> returns
  \<open>remaining = 1\<close>, not 2. The refill runs over the negative elapsed time
  \<open>now - last_refill\<close> and takes a fraction of a token out of the full bucket, and
  \<^verbatim>\<open>int\<close> truncates the rest.
\<close>

theorem token_bucket_check_after_reset:
  "\<exists>rl1. RateLimiter_reset md5_hex
            \<lparr>rl_limit = 3, rl_window = 5, raise_on_limit = flag, key_prefix = prefix,
             rl_store = st, rl_strategy = TOKEN_BUCKET\<rparr> k w0 w1 w2 = (Inr (), rl1) \<and>
      fst (RateLimiter_check md5_hex rl1 k
             \<lparr>t_wall = 50, t_now = 100, t_get = 100, t_new = 100 + 1 / 1000000,
              t_set = 100 + 1 / 1000000\<rparr>) =
        Inr \<lparr>allowed = True,
             res_key = prefix @ '':'' @ take 8 (md5_hex k) @ '':'' @ k,
             remaining = 1, res_limit = 3,
             reset_at = 50 + (3 - (2 - 6 / 10000000)) / (3 / 5), retry_after = 0,
             res_strategy = ''token_bucket''\<rparr>"
proof -
  let ?rl = "\<lparr>rl_limit = 3, rl_window = 5, raise_on_limit = flag, key_prefix = prefix,
             rl_store = st, rl_strategy = TOKEN_BUCKET\<rparr>"
  let ?rd = "\<lparr>t_wall = 50, t_now = 100, t_get = 100, t_new = 100 + 1 / 1000000,
                t_set = 100 + 1 / 1000000\<rparr>"
  have "rl_window ?rl \<noteq> 0" by simp
  from reset_clears [OF this, of md5_hex k w0 w1 w2]
  obtain st' where r: "RateLimiter_reset md5_hex ?rl k w0 w1 w2 = (Inr (), ?rl\<lparr>rl_store := st'\<rparr>)"
    and d: "s_data st' (build_key md5_hex ?rl k @ '':tb'') = None"
    and t: "s_ttl st' (build_key md5_hex ?rl k @ '':tb'') = None"
    by auto
  have t1: "3 - 6 / 10000000 = min (real_of_int 3)
      (real_of_int 3 + (t_now ?rd - t_new ?rd) * (real_of_int 3 / 5))"
    by simp
  have t2: "(2::real) - 6 / 10000000 =
      (if (1::real) \<le> 3 - 6 / 10000000 then 3 - 6 / 10000000 - 1 else 3 - 6 / 10000000)"
    by simp
  have "(5::real) \<noteq> 0" and "(3::int) \<noteq> 0" by simp_all
  note chk = TokenBucket_check_fresh [OF this d t t1 t2]
  have fl: "py_int (2 - 6 / 10000000) = 1"
    by (simp add: py_int_def)
  have "fst (RateLimiter_check md5_hex (?rl\<lparr>rl_store := st'\<rparr>) k ?rd) =
      Inr \<lparr>allowed = True, res_key = prefix @ '':'' @ take 8 (md5_hex k) @ '':'' @ k,
           remaining = 1, res_limit = 3,
           reset_at = 50 + (3 - (2 - 6 / 10000000)) / (3 / 5), retry_after = 0,
           res_strategy = ''token_bucket''\<rparr>"
    using chk fl by (simp add: RateLimiter_check_def Strategy_check_def build_key_def)
  with r show ?thesis by simp
qed

text \<open>With limit 1 the same readings make the first check after \<^verbatim>\<open>reset\<close> a denial.\<close>

lemma token_bucket_first_check_denied:
  "\<exists>rl1. RateLimiter_reset md5_hex
            \<lparr>rl_limit = 1, rl_window = 5, raise_on_limit = flag, key_prefix = prefix,
             rl_store = st, rl_strategy = TOKEN_BUCKET\<rparr> k w0 w1 w2 = (Inr (), rl1) \<and>
      fst (RateLimiter_check md5_hex rl1 k
             \<lparr>t_wall = 50, t_now = 100, t_get = 100, t_new = 100 + 1 / 1000000,
              t_set = 100 + 1 / 1000000\<rparr>) =
        Inr \<lparr>allowed = False,
             res_key = prefix @ '':'' @ take 8 (md5_hex k) @ '':'' @ k,
             remaining = 0, res_limit = 1,
             reset_at = 50 + 1 / 1000000, retry_after = 1 / 1000000,
             res_strategy = ''token_bucket''\<rparr>"
proof -
  let ?rl = "\<lparr>rl_limit = 1, rl_window = 5, raise_on_limit = flag, key_prefix = prefix,
             rl_store = st, rl_strategy = TOKEN_BUCKET\<rparr>"
  let ?rd = "\<lparr>t_wall = 50, t_now = 100, t_get = 100, t_new = 100 + 1 / 1000000,
                t_set = 100 + 1 / 1000000\<rparr>"
  have "rl_window ?rl \<noteq> 0" by simp
  from reset_clears [OF this, of md5_hex k w0 w1 w2]
  obtain st' where r: "RateLimiter_reset md5_hex ?rl k w0 w1 w2 = (Inr (), ?rl\<lparr>rl_store := st'\<rparr>)"
    and d: "s_data st' (build_key md5_hex ?rl k @ '':tb'') = None"
    and t: "s_ttl st' (build_key md5_hex ?rl k @ '':tb'') = None"
    by auto
  have t1: "1 - 2 / 10000000 = min (real_of_int 1)
      (real_of_int 1 + (t_now ?rd - t_new ?rd) * (real_of_int 1 / 5))"
    by simp
  have t2: "(1::real) - 2 / 10000000 =
      (if (1::real) \<le> 1 - 2 / 10000000 then 1 - 2 / 10000000 - 1 else 1 - 2 / 10000000)"
    by simp
  have "(5::real) \<noteq> 0" and "(1::int) \<noteq> 0" by simp_all
  note chk = TokenBucket_check_fresh [OF this d t t1 t2]
  have fl: "py_int (1 - 2 / 10000000) = 0"
    by (simp add: py_int_def)
  have "fst (RateLimiter_check md5_hex (?rl\<lparr>rl_store := st'\<rparr>) k ?rd) =
      Inr \<lparr>allowed = False, res_key = prefix @ '':'' @ take 8 (md5_hex k) @ '':'' @ k,
           remaining = 0, res_limit = 1,
           reset_at = 50 + 1 / 1000000, retry_after = 1 / 1000000,
           res_strategy = ''token_bucket''\<rparr>"
    using chk fl by (simp add: RateLimiter_check_def Strategy_check_def build_key_def)
  with r show ?thesis by simp
qed

subsection \<open>Bounds of the stored bucket states\<close>

text \<open>
  Claim C4 states that after every check the stored token count lies in \<open>[0, limit]\<close> and
  the stored queue size in \<open>[0, limit]\<close>. With limit 5 and window 1, a first check of a key
  whose fresh state reads the monotonic clock 1.5 seconds after \<open>now\<close> stores
  \<open>tokens = -2.5\<close> in the token bucket and \<open>queue_size = 7\<close> in the leaky bucket: the elapsed
  time is negative, so the refill subtracts and the drain adds.
\<close>

theorem bucket_bounds_broken_by_late_timestamp:
  "s_data (snd (TokenBucket_check InMemoryStore_init ''k'' 5 1
                  \<lparr>t_wall = 0, t_now = 100, t_get = 100, t_new = 100 + 3 / 2, t_set = 100 + 3 / 2\<rparr>))
      ''k:tb''
     = Some (BucketV \<lparr>tokens = - 5 / 2, last_refill = 100\<rparr>) \<and>
   s_data (snd (LeakyBucket_check InMemoryStore_init ''k'' 5 1
                  \<lparr>t_wall = 0, t_now = 100, t_get = 100, t_new = 100 + 3 / 2, t_set = 100 + 3 / 2\<rparr>))
      ''k:lb''
     = Some (LeakyV \<lparr>queue_size = 7, last_leak = 100\<rparr>)"
proof -
  let ?rd = "\<lparr>t_wall = 0, t_now = 100, t_get = 100, t_new = 100 + 3 / 2, t_set = 100 + 3 / 2\<rparr>"
  have w: "(1::real) \<noteq> 0" and l: "(5::int) \<noteq> 0" by simp_all
  have e1: "s_data InMemoryStore_init (''k'' @ '':tb'') = None"
    and e2: "s_ttl InMemoryStore_init (''k'' @ '':tb'') = None"
    and e3: "s_data InMemoryStore_init (''k'' @ '':lb'') = None"
    and e4: "s_ttl InMemoryStore_init (''k'' @ '':lb'') = None"
    by (simp_all add: InMemoryStore_init_def)
  have t1: "- 5 / 2 = min (real_of_int 5)
              (real_of_int 5 + (t_now ?rd - t_new ?rd) * (real_of_int 5 / 1))"
    by simp
  have t2: "- 5 / 2 = (if (1::real) \<le> - 5 / 2 then - 5 / 2 - 1 else - 5 / 2)"
    by simp
  have q0: "- 7 = py_int ((t_now ?rd - t_new ?rd) * (real_of_int 5 / 1))"
    by (simp add: py_int_def)
  have q1: "(7::int) = max 0 (0 - (- 7))" by simp
  have q2: "(7::int) = (if (7::int) < 5 then 7 + 1 else 7)" by simp
  have "s_data (snd (TokenBucket_check InMemoryStore_init ''k'' 5 1 ?rd)) ''k:tb''
          = Some (BucketV \<lparr>tokens = - 5 / 2, last_refill = 100\<rparr>)"
    unfolding TokenBucket_check_fresh [OF w l e1 e2 t1 t2]
    by (simp add: store_set_def)
  moreover have "s_data (snd (LeakyBucket_check InMemoryStore_init ''k'' 5 1 ?rd)) ''k:lb''
          = Some (LeakyV \<lparr>queue_size = 7, last_leak = 100\<rparr>)"
    unfolding LeakyBucket_check_fresh [OF w l e3 e4 q0 q1 q2]
    by (simp add: store_set_def)
  ultimately show ?thesis by simp
qed

text \<open>
  What holds for every check with \<open>limit > 0\<close> and \<open>window > 0\<close>: the stored token count is
  at most \<open>limit\<close> however long the bucket was idle, and the stored queue size is at least
  0. The other two bounds hold when the refill of the loaded state leaves no negative
  count, respectively when the drain of the loaded state leaves no more than \<open>limit\<close>
  (in particular for a state within its bounds and a clock that has not run backwards
  since its timestamp).
\<close>

lemma TokenBucket_tokens_bounds:
  assumes "0 < limit" and "0 < window"
    and "store_get st (key @ '':tb'') (t_get rd) = (v, st1)"
    and "load_bucket v limit (t_new rd) = Inr b"
  shows "\<exists>b'. s_data (snd (TokenBucket_check st key limit window rd)) (key @ '':tb'')
                 = Some (BucketV b') \<and>
              tokens b' \<le> real_of_int limit \<and>
              (0 \<le> tokens b + (t_now rd - last_refill b) * (real_of_int limit / window)
                 \<longrightarrow> 0 \<le> tokens b')"
proof -
  define tokens1 where "tokens1 = min (real_of_int limit)
                     (tokens b + (t_now rd - last_refill b) * (real_of_int limit / window))"
  define tokens2 where "tokens2 = (if 1 \<le> tokens1 then tokens1 - 1 else tokens1)"
  have w: "window \<noteq> 0" and l: "limit \<noteq> 0" using assms(1,2) by simp_all
  have "s_data (snd (TokenBucket_check st key limit window rd)) (key @ '':tb'')
          = Some (BucketV \<lparr>tokens = tokens2, last_refill = t_now rd\<rparr>)"
    unfolding TokenBucket_check_unfold [OF w l assms(3,4) tokens1_def tokens2_def]
    by (simp add: store_set_def)
  moreover have "tokens1 \<le> real_of_int limit"
    unfolding tokens1_def by simp
  then have "tokens2 \<le> real_of_int limit"
    unfolding tokens2_def by (simp split: if_splits)
  moreover have "0 \<le> tokens2"
    if "0 \<le> tokens b + (t_now rd - last_refill b) * (real_of_int limit / window)"
  proof -
    from that assms(1) have "0 \<le> tokens1"
      unfolding tokens1_def by simp
    then show ?thesis unfolding tokens2_def by simp
  qed
  ultimately show ?thesis by simp
qed

lemma LeakyBucket_queue_bounds:
  assumes "0 < limit" and "0 < window"
    and "store_get st (key @ '':lb'') (t_get rd) = (v, st1)"
    and "load_leaky v (t_new rd) = Inr q"
  shows "\<exists>q'. s_data (snd (LeakyBucket_check st key limit window rd)) (key @ '':lb'')
                 = Some (LeakyV q') \<and>
              0 \<le> queue_size q' \<and>
              (queue_size q
                 - py_int ((t_now rd - last_leak q) * (real_of_int limit / window)) \<le> limit
                 \<longrightarrow> queue_size q' \<le> limit)"
proof -
  define leaked where "leaked = py_int ((t_now rd - last_leak q) * (real_of_int limit / window))"
  define queue1 where "queue1 = max 0 (queue_size q - leaked)"
  define queue2 where "queue2 = (if queue1 < limit then queue1 + 1 else queue1)"
  have w: "window \<noteq> 0" and l: "limit \<noteq> 0" using assms(1,2) by simp_all
  have "s_data (snd (LeakyBucket_check st key limit window rd)) (key @ '':lb'')
          = Some (LeakyV \<lparr>queue_size = queue2,
                         last_leak = (if leaked \<noteq> 0 then t_now rd else last_leak q)\<rparr>)"
    unfolding LeakyBucket_check_unfold [OF w l assms(3,4) leaked_def queue1_def queue2_def]
    by (simp add: store_set_def)
  moreover have "0 \<le> queue2"
    unfolding queue2_def queue1_def by simp
  moreover have "queue2 \<le> limit" if "queue_size q - leaked \<le> limit"
    using that assms(1) unfolding queue2_def queue1_def by auto
  ultimately show ?thesis unfolding leaked_def by simp
qed

subsection \<open>TieredRateLimiter.enforce\<close>

















subsection \<open>Allowed checks within one window\<close>



































end
